theory Spec2Isabelle
  imports Complex_Main "HOL-Library.Multiset"
begin

text \<open>
  The two Node.js wrappers of the repository, \<open>skills/monarch-report/impl.js\<close> and
  \<open>skills/monarch-transactions/impl.js\<close>: the parameters they read, their search for
  a Python 3, and \<open>run\<close>, which starts a Python script and turns its exit status and
  output into a value or an \<open>Error\<close>. The block for direct invocation, which prints what
  \<open>run\<close> gives, is not part of the model.
\<close>

section \<open>Strings of the wrappers\<close>

text \<open>
  A JavaScript string is modelled as a \<^typ>\<open>string\<close>: a list of code units, of which
  only those below 256 are representable. \<open>a || b\<close> on strings takes \<open>b\<close> when \<open>a\<close> is
  \<open>undefined\<close> or the empty string.
\<close>

definition dq :: char where
  "dq = CHR 0x22"

definition nl :: char where
  "nl = CHR 0x0A"

definition quoted :: "string \<Rightarrow> string" where
  \<comment> \<open>the template literal that wraps a path or a category in double quotes\<close>
  "quoted s = dq # s @ [dq]"

fun join :: "string \<Rightarrow> string list \<Rightarrow> string" where
  "join sep [] = []"
| "join sep [x] = x"
| "join sep (x # y # ys) = x @ sep @ join sep (y # ys)"

definition isWhiteSpace :: "char \<Rightarrow> bool" where
  \<comment> \<open>the white space and line terminators of ECMAScript among the code units below 256\<close>
  "isWhiteSpace c =
     (c = CHR 0x09 \<or> c = CHR 0x0A \<or> c = CHR 0x0B \<or> c = CHR 0x0C \<or> c = CHR 0x0D \<or>
      c = CHR 0x20 \<or> c = CHR 0xA0)"

definition trim :: "string \<Rightarrow> string" where
  "trim s = rev (dropWhile isWhiteSpace (rev (dropWhile isWhiteSpace s)))"

definition slice0 :: "nat \<Rightarrow> string \<Rightarrow> string" where
  \<comment> \<open>\<open>s.slice(0, n)\<close>\<close>
  "slice0 n s = take n s"

definition startsWith :: "string \<Rightarrow> string \<Rightarrow> bool" where
  "startsWith s sub = (take (length sub) s = sub)"

fun includesStr :: "string \<Rightarrow> string \<Rightarrow> bool" where
  "includesStr [] sub = (sub = [])"
| "includesStr (c # cs) sub = (startsWith (c # cs) sub \<or> includesStr cs sub)"

definition orElse :: "string option \<Rightarrow> string \<Rightarrow> string" where
  \<comment> \<open>\<open>a || b\<close> where \<open>a\<close> is a string or \<open>undefined\<close>\<close>
  "orElse a b = (case a of None \<Rightarrow> b | Some s \<Rightarrow> if s = [] then b else s)"

fun digits :: "nat \<Rightarrow> string" where
  "digits n =
     (if n < 10 then [''0123456789'' ! n]
      else digits (n div 10) @ [''0123456789'' ! (n mod 10)])"

definition statusText :: "int option \<Rightarrow> string" where
  \<comment> \<open>\<open>${err.status}\<close>: an integer exit status in decimal, \<open>null\<close> when a signal ended the child\<close>
  "statusText st =
     (case st of
        None \<Rightarrow> ''null''
      | Some n \<Rightarrow> if n < 0 then CHR ''-'' # digits (nat (- n)) else digits (nat n))"

section \<open>JSON values and errors\<close>

text \<open>
  The values \<open>JSON.parse\<close> returns. Numbers are IEEE doubles in the source; their type
  \<open>'n\<close> is left open, and the two things the wrappers need of a number (whether it is
  zero, its decimal text) are taken from the platform. An object is the list of its own
  properties; \<open>map_of\<close> reads a property.
\<close>

datatype 'n json =
    JNull
  | JBool bool
  | JNum 'n
  | JStr string
  | JArr "'n json list"
  | JObj "(string \<times> 'n json) list"

text \<open>An \<open>Error\<close> of the wrappers: its message, and the \<open>payload\<close> property when one was set.\<close>

record 'n js_error =
  message :: string
  payload :: "'n json option"

text \<open>What \<open>execSync\<close> throws: the child's exit status, and its two output streams.\<close>

record exec_error =
  status :: "int option"
  stdout :: "string option"
  stderr :: "string option"

definition newError :: "string \<Rightarrow> 'n js_error" where
  \<comment> \<open>\<open>new Error(m)\<close>: no \<open>payload\<close> property\<close>
  "newError m = \<lparr>message = m, payload = None\<rparr>"

datatype exec_outcome = Returned string | Threw exec_error

datatype event = ExistsSync string | ExecSync string "nat option"

text \<open>
  The platform a wrapper runs on: the process's environment and arguments, the file
  system, the child processes (a command and the \<open>timeout\<close> option in milliseconds give
  an outcome) and the built-in functions of Node.js that the wrappers call.
\<close>

record 'n platform =
  env :: "string \<Rightarrow> string option"
  argv :: "string list"
  dirname :: string
  path_resolve :: "string list \<Rightarrow> string"
  path_join :: "string list \<Rightarrow> string"
  existsSync :: "string \<Rightarrow> bool"
  execSync :: "string \<Rightarrow> nat option \<Rightarrow> exec_outcome"
  JSON_parse :: "string \<Rightarrow> 'n json option"
  Number_isZero :: "'n \<Rightarrow> bool"
  Number_toString :: "'n \<Rightarrow> string"

definition argvAt :: "'n platform \<Rightarrow> nat \<Rightarrow> string option" where
  \<comment> \<open>\<open>process.argv[i]\<close>, \<open>undefined\<close> past the end\<close>
  "argvAt p i = (if i < length (argv p) then Some (argv p ! i) else None)"

definition PROJECT_ROOT :: "'n platform \<Rightarrow> string" where
  "PROJECT_ROOT p = path_resolve p [dirname p, ''..'', ''..'']"

definition SESSION_PATH :: "'n platform \<Rightarrow> string" where
  "SESSION_PATH p = path_join p [PROJECT_ROOT p, ''session.json'']"

section \<open>Truthiness and string conversion of a parsed value\<close>

fun truthy :: "('n \<Rightarrow> bool) \<Rightarrow> 'n json \<Rightarrow> bool" where
  "truthy z JNull = False"
| "truthy z (JBool b) = b"
| "truthy z (JNum n) = (\<not> z n)"
| "truthy z (JStr s) = (s \<noteq> [])"
| "truthy z (JArr xs) = True"
| "truthy z (JObj kvs) = True"

text \<open>
  \<open>ToString\<close> of a parsed value, \<open>None\<close> where it throws a \<open>TypeError\<close>: an object with
  an own \<open>toString\<close> property (never callable in a parsed value) has no primitive
  value; an array joins its elements with commas, \<open>null\<close> elements as the empty string.
\<close>

fun ToString :: "('n \<Rightarrow> string) \<Rightarrow> 'n json \<Rightarrow> string option"
  and ToString_elements :: "('n \<Rightarrow> string) \<Rightarrow> 'n json list \<Rightarrow> string list option" where
  "ToString ns JNull = Some ''null''"
| "ToString ns (JBool b) = Some (if b then ''true'' else ''false'')"
| "ToString ns (JNum n) = Some (ns n)"
| "ToString ns (JStr s) = Some s"
| "ToString ns (JArr xs) = map_option (join '','') (ToString_elements ns xs)"
| "ToString ns (JObj kvs) =
     (if map_of kvs ''toString'' \<noteq> None then None else Some ''[object Object]'')"
| "ToString_elements ns [] = Some []"
| "ToString_elements ns (x # xs) =
     (case (if x = JNull then Some [] else ToString ns x) of
        None \<Rightarrow> None
      | Some s \<Rightarrow> map_option ((#) s) (ToString_elements ns xs))"

definition getError :: "'n json \<Rightarrow> 'n json option" where
  \<comment> \<open>\<open>payload.error\<close> on a value that is not \<open>null\<close>: an object's own property,
      \<open>undefined\<close> on a primitive or an array\<close>
  "getError v = (case v of JObj kvs \<Rightarrow> map_of kvs ''error'' | _ \<Rightarrow> None)"

section \<open>Parameters of the two wrappers\<close>

text \<open>
  Module-level constants of \<open>skills/monarch-report/impl.js\<close> (suffix \<open>_report\<close>) and of
  \<open>skills/monarch-transactions/impl.js\<close> (suffix \<open>_transactions\<close>).
\<close>

definition SCRIPT_PATH_report :: "'n platform \<Rightarrow> string" where
  "SCRIPT_PATH_report p = path_join p [PROJECT_ROOT p, ''over_budget_report.py'']"

definition SCRIPT_PATH_transactions :: "'n platform \<Rightarrow> string" where
  "SCRIPT_PATH_transactions p = path_join p [PROJECT_ROOT p, ''category_transactions.py'']"

definition threshold :: "'n platform \<Rightarrow> string" where
  \<comment> \<open>\<open>process.env.THRESHOLD || process.argv[2] || "50"\<close>\<close>
  "threshold p = orElse (env p ''THRESHOLD'') (orElse (argvAt p 2) ''50'')"

definition category :: "'n platform \<Rightarrow> string" where
  \<comment> \<open>\<open>process.env.CATEGORY || process.argv[2] || ""\<close>\<close>
  "category p = orElse (env p ''CATEGORY'') (orElse (argvAt p 2) [])"

definition month :: "'n platform \<Rightarrow> string" where
  \<comment> \<open>\<open>process.env.MONTH || process.argv[3] || ""\<close>\<close>
  "month p = orElse (env p ''MONTH'') (orElse (argvAt p 3) [])"

section \<open>Python detection\<close>

text \<open>
  Every function that touches the file system or starts a child appends the call to a
  trace, so that what happened before a failure can be stated.
\<close>

fun firstExisting :: "'n platform \<Rightarrow> string list \<Rightarrow> event list \<Rightarrow> string option \<times> event list" where
  "firstExisting p [] tr = (None, tr)"
| "firstExisting p (candidate # rest) tr =
     (if existsSync p candidate then (Some candidate, tr @ [ExistsSync candidate])
      else firstExisting p rest (tr @ [ExistsSync candidate]))"

fun firstPython3 :: "'n platform \<Rightarrow> string list \<Rightarrow> event list \<Rightarrow> string option \<times> event list" where
  "firstPython3 p [] tr = (None, tr)"
| "firstPython3 p (candidate # rest) tr =
     (case execSync p (candidate @ '' --version'') None of
        Returned out \<Rightarrow>
          if includesStr out ''Python 3''
          then (Some candidate, tr @ [ExecSync (candidate @ '' --version'') None])
          else firstPython3 p rest (tr @ [ExecSync (candidate @ '' --version'') None])
      | Threw _ \<Rightarrow> firstPython3 p rest (tr @ [ExecSync (candidate @ '' --version'') None]))"

definition noPython_report :: string where
  "noPython_report =
     ''Python 3 is not available on PATH. '' @
     ''Install Python 3 and ensure it is accessible as '' @
     [CHR 0x27] @ ''python3'' @ [CHR 0x27] @ '' or '' @ [CHR 0x27] @ ''python'' @ [CHR 0x27] @ ''.''"

definition findPython_report :: "'n platform \<Rightarrow> event list \<Rightarrow> ('n js_error + string) \<times> event list" where
  "findPython_report p tr =
     (case firstPython3 p [''python3'', ''python''] tr of
        (Some candidate, tr') \<Rightarrow> (Inr candidate, tr')
      | (None, tr') \<Rightarrow> (Inl (newError noPython_report), tr'))"

definition venvCandidates :: "'n platform \<Rightarrow> string list" where
  "venvCandidates p =
     [path_join p [PROJECT_ROOT p, ''.venv'', ''bin'', ''python''],
      path_join p [PROJECT_ROOT p, ''.venv'', ''Scripts'', ''python'']]"

definition noPython_transactions :: string where
  "noPython_transactions =
     ''Python 3 not found. Create a venv at .venv/ or install Python 3 on PATH.''"

definition findPython_transactions :: "'n platform \<Rightarrow> event list \<Rightarrow> ('n js_error + string) \<times> event list" where
  "findPython_transactions p tr =
     (case firstExisting p (venvCandidates p) tr of
        (Some candidate, tr') \<Rightarrow> (Inr candidate, tr')
      | (None, tr') \<Rightarrow>
          (case firstPython3 p [''python3'', ''python''] tr' of
             (Some candidate, tr'') \<Rightarrow> (Inr candidate, tr'')
           | (None, tr'') \<Rightarrow> (Inl (newError noPython_transactions), tr'')))"

section \<open>Running the script\<close>

text \<open>
  From \<open>let stdout\<close> to its end, \<open>run\<close> is the same text in both wrappers up to the
  script's name. \<open>wrapError\<close> is the body of the inner \<open>try\<close>: it gives no error of its
  own where \<open>payload.error\<close> (on \<open>null\<close>) or the string conversion of the message throws
  a \<open>TypeError\<close>.
\<close>

definition defaultMessage :: string where
  "defaultMessage = ''Script exited with non-zero status''"

definition errorText :: "'n platform \<Rightarrow> 'n json \<Rightarrow> string option" where
  \<comment> \<open>the message of \<open>new Error(payload.error || "Script exited with non-zero status")\<close>\<close>
  "errorText p parsed =
     (case getError parsed of
        None \<Rightarrow> Some defaultMessage
      | Some v \<Rightarrow>
          if truthy (Number_isZero p) v then ToString (Number_toString p) v
          else Some defaultMessage)"

definition wrapError :: "'n platform \<Rightarrow> 'n json \<Rightarrow> 'n js_error option" where
  "wrapError p parsed =
     (if parsed = JNull then None
      else
        (case errorText p parsed of
           None \<Rightarrow> None
         | Some m \<Rightarrow> Some \<lparr>message = m, payload = Some parsed\<rparr>))"

definition fallbackError :: "string \<Rightarrow> exec_error \<Rightarrow> 'n js_error" where
  "fallbackError script err =
     newError
       (script @ '' failed (exit '' @ statusText (status err) @ '').'' @ [nl] @
        orElse (Some (trim (orElse (stderr err) []))) ''No stderr output.'')"

definition catchExec :: "'n platform \<Rightarrow> string \<Rightarrow> exec_error \<Rightarrow> 'n js_error" where
  "catchExec p script err =
     (let raw = trim (orElse (stdout err) []) in
      if raw = [] then fallbackError script err
      else
        (case JSON_parse p raw of
           None \<Rightarrow> fallbackError script err
         | Some parsed \<Rightarrow>
             (case wrapError p parsed of
                None \<Rightarrow> fallbackError script err
              | Some wrapped \<Rightarrow>
                  if truthy (Number_isZero p) parsed then wrapped
                  else fallbackError script err)))"

definition parseFailure :: "string \<Rightarrow> string \<Rightarrow> 'n js_error" where
  "parseFailure script out =
     newError
       (''Failed to parse JSON from '' @ script @ ''.'' @ [nl] @ ''Raw output: '' @ slice0 500 out)"

definition execScript ::
  "'n platform \<Rightarrow> string \<Rightarrow> string \<Rightarrow> event list \<Rightarrow> ('n js_error + 'n json) \<times> event list" where
  "execScript p script command tr =
     (case execSync p command (Some 30000) of
        Threw err \<Rightarrow> (Inl (catchExec p script err), tr @ [ExecSync command (Some 30000)])
      | Returned out \<Rightarrow>
          (case JSON_parse p (trim out) of
             Some v \<Rightarrow> (Inr v, tr @ [ExecSync command (Some 30000)])
           | None \<Rightarrow> (Inl (parseFailure script out), tr @ [ExecSync command (Some 30000)])))"

definition command_report :: "'n platform \<Rightarrow> string \<Rightarrow> string" where
  "command_report p python =
     join '' ''
       [python, quoted (SCRIPT_PATH_report p), ''--json'', ''--threshold'', threshold p,
        ''--session'', quoted (SESSION_PATH p)]"

definition run_report :: "'n platform \<Rightarrow> ('n js_error + 'n json) \<times> event list" where
  "run_report p =
     (case findPython_report p [] of
        (Inl e, tr) \<Rightarrow> (Inl e, tr)
      | (Inr python, tr) \<Rightarrow>
          execScript p ''over_budget_report.py'' (command_report p python) tr)"

definition noCategory :: string where
  "noCategory =
     ''No category specified. Pass it via the CATEGORY env var or as argv[2].'' @ [nl] @
     ''Example: node impl.js '' @ quoted ''Dining Out''"

definition command_transactions :: "'n platform \<Rightarrow> string \<Rightarrow> string" where
  "command_transactions p python =
     join '' ''
       ([python, quoted (SCRIPT_PATH_transactions p), ''--json'',
         ''--category'', quoted (category p), ''--session'', quoted (SESSION_PATH p)] @
        (if month p \<noteq> [] then [''--month'', month p] else []))"

definition run_transactions :: "'n platform \<Rightarrow> ('n js_error + 'n json) \<times> event list" where
  "run_transactions p =
     (if category p = [] then (Inl (newError noCategory), [])
      else
        (case findPython_transactions p [] of
           (Inl e, tr) \<Rightarrow> (Inl e, tr)
         | (Inr python, tr) \<Rightarrow>
             execScript p ''category_transactions.py'' (command_transactions p python) tr))"

section \<open>What a caller reads off the outcome\<close>

definition errorCode :: "'n js_error \<Rightarrow> 'n json option" where
  \<comment> \<open>the \<open>code\<close> of the structured error response, read from the error's payload\<close>
  "errorCode e = (case payload e of Some (JObj kvs) \<Rightarrow> map_of kvs ''code'' | _ \<Rightarrow> None)"

definition python3Available :: "'n platform \<Rightarrow> string \<Rightarrow> bool" where
  \<comment> \<open>the test \<open>findPython\<close> makes of a candidate on the PATH\<close>
  "python3Available p candidate =
     (case execSync p (candidate @ '' --version'') None of
        Returned out \<Rightarrow> includesStr out ''Python 3''
      | Threw _ \<Rightarrow> False)"

definition unset :: "string option \<Rightarrow> bool" where
  \<comment> \<open>a parameter source that \<open>||\<close> passes over: \<open>undefined\<close> or the empty string\<close>
  "unset a = (a = None \<or> a = Some [])"

section \<open>The over-budget analysis\<close>

text \<open>
  Modelled from the spec: \<open>over_budget_report.py\<close>, which holds the analysis, is not among
  the sources; \<open>analyze\<close> follows section 4.3 of the specification (filter strictly above
  the threshold, sort by overage descending, sum the kept overages). Amounts are exact
  decimals, modelled as rationals; rounding to two places belongs to the output and is
  left out, as are the report's \<open>month\<close> and \<open>generated_at\<close>, which are not functions
  of the two arguments. Ties keep the provider's order.
\<close>

record BudgetCategory =
  name :: string
  group :: string
  planned :: rat
  actual :: rat

record OverBudgetRow = BudgetCategory +
  overage :: rat

record OverBudgetReport =
  report_threshold :: rat
  entries :: "OverBudgetRow list"
  total_overage :: rat

definition overageOf :: "BudgetCategory \<Rightarrow> rat" where
  "overageOf c = actual c - planned c"

definition toRow :: "BudgetCategory \<Rightarrow> OverBudgetRow" where
  "toRow c =
     \<lparr>name = name c, group = group c, planned = planned c, actual = actual c,
      overage = overageOf c\<rparr>"

definition ofRow :: "OverBudgetRow \<Rightarrow> BudgetCategory" where
  "ofRow r = \<lparr>name = name r, group = group r, planned = planned r, actual = actual r\<rparr>"

definition analyze :: "BudgetCategory list \<Rightarrow> rat \<Rightarrow> OverBudgetReport" where
  "analyze categories t =
     (let kept = filter (\<lambda>c. overageOf c > t) categories;
          rows = sort_key (\<lambda>r. - overage r) (map toRow kept)
      in \<lparr>report_threshold = t, entries = rows, total_overage = sum_list (map overage rows)\<rparr>)"

section \<open>Test doubles\<close>

text \<open>
  A platform for concrete runs: the project root is \<open>/r\<close>, paths are joined with a
  slash, numbers are integers, and \<open>JSON.parse\<close> knows the three texts below.
\<close>

definition expiredText :: string where
  \<open>expiredText = ''{"error":"Session expired","code":"SESSION_EXPIRED"}''\<close>

definition expiredJson :: "int json" where
  "expiredJson = JObj [(''error'', JStr ''Session expired''), (''code'', JStr ''SESSION_EXPIRED'')]"

definition emptyErrorText :: string where
  \<open>emptyErrorText = ''{"error":""}''\<close>

definition emptyErrorJson :: "int json" where
  "emptyErrorJson = JObj [(''error'', JStr [])]"

definition reportText :: string where
  \<open>reportText = ''{"over_budget":[],"total_overage":0}''\<close>

definition reportJson :: "int json" where
  "reportJson = JObj [(''over_budget'', JArr []), (''total_overage'', JNum 0)]"

definition demoParse :: "string \<Rightarrow> int json option" where
  "demoParse s =
     (if s = expiredText then Some expiredJson
      else if s = emptyErrorText then Some emptyErrorJson
      else if s = reportText then Some reportJson
      else None)"

definition demo ::
  "(string \<Rightarrow> string option) \<Rightarrow> string list \<Rightarrow> (string \<Rightarrow> bool) \<Rightarrow> (string \<Rightarrow> exec_outcome) \<Rightarrow>
   int platform" where
  "demo e a ex run =
     \<lparr>env = e, argv = a, dirname = ''/r/skills/s'', path_resolve = (\<lambda>_. ''/r''),
      path_join = join ''/'', existsSync = ex, execSync = (\<lambda>cmd t. run cmd),
      JSON_parse = demoParse, Number_isZero = (\<lambda>n. n = 0),
      Number_toString = (\<lambda>n. statusText (Some n))\<rparr>"

definition python3Then :: "exec_outcome \<Rightarrow> string \<Rightarrow> exec_outcome" where
  \<comment> \<open>\<open>python3\<close> is Python 3.11; every other command has the given outcome\<close>
  "python3Then outcome cmd =
     (if cmd = ''python3 --version'' then Returned (''Python 3.11.4'' @ [nl]) else outcome)"

definition exited :: "int option \<Rightarrow> string \<Rightarrow> string \<Rightarrow> exec_outcome" where
  "exited st out err = Threw \<lparr>status = st, stdout = Some out, stderr = Some err\<rparr>"

definition reportDemo :: "exec_outcome \<Rightarrow> int platform" where
  \<comment> \<open>\<open>node impl.js\<close> for the report, no environment variable set\<close>
  "reportDemo outcome =
     demo Map.empty [''node'', ''impl.js''] (\<lambda>_. False) (python3Then outcome)"

definition transactionsDemo :: "exec_outcome \<Rightarrow> int platform" where
  \<comment> \<open>\<open>node impl.js Rent\<close> for the transactions, no environment variable set\<close>
  "transactionsDemo outcome =
     demo Map.empty [''node'', ''impl.js'', ''Rent''] (\<lambda>_. False) (python3Then outcome)"

definition noPythonDemo :: "string list \<Rightarrow> int platform" where
  \<comment> \<open>no virtual environment, and the shell finds neither \<open>python3\<close> nor \<open>python\<close>\<close>
  "noPythonDemo a = demo Map.empty a (\<lambda>_. False) (\<lambda>_. exited (Some 127) [] ''not found'')"

definition envDemo :: "int platform" where
  \<comment> \<open>\<open>THRESHOLD=100 CATEGORY=Rent MONTH=2026-01 node impl.js 25 2026-02\<close>\<close>
  "envDemo =
     demo [''THRESHOLD'' \<mapsto> ''100'', ''CATEGORY'' \<mapsto> ''Rent'', ''MONTH'' \<mapsto> ''2026-01'']
       [''node'', ''impl.js'', ''25'', ''2026-02''] (\<lambda>_. False)
       (python3Then (Returned reportText))"

definition argvDemo :: "int platform" where
  \<comment> \<open>\<open>node impl.js 25 2026-02\<close>, no environment variable set\<close>
  "argvDemo =
     demo Map.empty [''node'', ''impl.js'', ''25'', ''2026-02''] (\<lambda>_. False)
       (python3Then (Returned reportText))"

definition negativeDemo :: "int platform" where
  \<comment> \<open>\<open>THRESHOLD=-5 node impl.js\<close>, with a script that answers with a report\<close>
  "negativeDemo =
     demo [''THRESHOLD'' \<mapsto> ''-5''] [''node'', ''impl.js''] (\<lambda>_. False)
       (python3Then (Returned reportText))"

definition scenarioA :: "BudgetCategory list" where
  "scenarioA =
     [\<lparr>name = ''Dining Out'', group = ''Food&Drink'', planned = 200, actual = 312.45\<rparr>,
      \<lparr>name = ''Rent'', group = ''Housing'', planned = 1500, actual = 1500\<rparr>]"

section \<open>Facts about the shared steps\<close>

lemmas demo_defs = reportDemo_def transactionsDemo_def demo_def python3Then_def exited_def
  demoParse_def expiredText_def expiredJson_def emptyErrorText_def emptyErrorJson_def
  reportText_def reportJson_def

lemmas wrapper_defs = findPython_report_def findPython_transactions_def venvCandidates_def
  command_report_def command_transactions_def SCRIPT_PATH_report_def
  SCRIPT_PATH_transactions_def SESSION_PATH_def PROJECT_ROOT_def threshold_def category_def
  month_def orElse_def argvAt_def quoted_def dq_def nl_def startsWith_def trim_def
  isWhiteSpace_def

lemma execScript_Threw:
  "execSync p command (Some 30000) = Threw err \<Longrightarrow>
   execScript p script command tr =
     (Inl (catchExec p script err), tr @ [ExecSync command (Some 30000)])"
  by (simp add: execScript_def)

lemma execScript_Returned:
  "execSync p command (Some 30000) = Returned out \<Longrightarrow>
   execScript p script command tr =
     (case JSON_parse p (trim out) of
        Some v \<Rightarrow> (Inr v, tr @ [ExecSync command (Some 30000)])
      | None \<Rightarrow> (Inl (parseFailure script out), tr @ [ExecSync command (Some 30000)]))"
  by (simp add: execScript_def)

lemma execScript_trace:
  "snd (execScript p script command tr) = tr @ [ExecSync command (Some 30000)]"
  by (simp add: execScript_def split: exec_outcome.splits option.splits)

lemma run_report_found:
  "findPython_report p [] = (Inr python, tr) \<Longrightarrow>
   run_report p = execScript p ''over_budget_report.py'' (command_report p python) tr"
  by (simp add: run_report_def)

lemma run_report_not_found:
  "findPython_report p [] = (Inl e, tr) \<Longrightarrow> run_report p = (Inl e, tr)"
  by (simp add: run_report_def)

lemma run_transactions_found:
  "category p \<noteq> [] \<Longrightarrow> findPython_transactions p [] = (Inr python, tr) \<Longrightarrow>
   run_transactions p =
     execScript p ''category_transactions.py'' (command_transactions p python) tr"
  by (simp add: run_transactions_def)

lemma run_transactions_not_found:
  "category p \<noteq> [] \<Longrightarrow> findPython_transactions p [] = (Inl e, tr) \<Longrightarrow>
   run_transactions p = (Inl e, tr)"
  by (simp add: run_transactions_def)

lemma orElse_Some_empty: "orElse (Some out) [] = out"
  by (simp add: orElse_def)

lemma catchExec_object:
  assumes "stdout err = Some out" and "trim out \<noteq> []"
    and "JSON_parse p (trim out) = Some (JObj kvs)"
    and "errorText p (JObj kvs) = Some m"
  shows "catchExec p script err = \<lparr>message = m, payload = Some (JObj kvs)\<rparr>"
  using assms by (simp add: catchExec_def wrapError_def orElse_Some_empty)

lemma catchExec_fallback:
  assumes "trim (orElse (stdout err) []) = [] \<or> JSON_parse p (trim (orElse (stdout err) [])) = None"
  shows "catchExec p script err = fallbackError script err"
  using assms by (auto simp: catchExec_def Let_def)

lemma catchExec_cases:
  "catchExec p script err = fallbackError script err \<or> payload (catchExec p script err) \<noteq> None"
  by (simp add: catchExec_def wrapError_def Let_def split: option.splits)

lemma fallbackError_message:
  "(fallbackError script err :: 'n js_error) =
     \<lparr>message =
        script @ '' failed (exit '' @ statusText (status err) @ '').'' @ [nl] @
        (if trim (orElse (stderr err) []) = [] then ''No stderr output.''
         else trim (orElse (stderr err) [])),
      payload = None\<rparr>"
  by (simp add: fallbackError_def newError_def orElse_def)

lemma errorText_absent:
  "map_of kvs ''error'' = None \<Longrightarrow> errorText p (JObj kvs) = Some defaultMessage"
  by (simp add: errorText_def getError_def)

lemma errorText_string:
  "map_of kvs ''error'' = Some (JStr s) \<Longrightarrow>
   errorText p (JObj kvs) = Some (if s = [] then defaultMessage else s)"
  by (simp add: errorText_def getError_def)

text \<open>Python detection leaves only file tests and version probes in the trace.\<close>

lemma firstExisting_events:
  "firstExisting p cs tr = (r, tr') \<Longrightarrow> set tr' \<subseteq> set tr \<union> ExistsSync ` set cs"
proof (induction cs arbitrary: tr)
  case Nil
  then show ?case by simp
next
  case (Cons c cs)
  show ?case
  proof (cases "existsSync p c")
    case True
    with Cons.prems show ?thesis by auto
  next
    case False
    with Cons.prems have "firstExisting p cs (tr @ [ExistsSync c]) = (r, tr')" by simp
    from Cons.IH [OF this] show ?thesis by auto
  qed
qed

lemma firstPython3_events:
  "firstPython3 p cs tr = (r, tr') \<Longrightarrow>
   set tr' \<subseteq> set tr \<union> (\<lambda>c. ExecSync (c @ '' --version'') None) ` set cs"
proof (induction cs arbitrary: tr)
  case Nil
  then show ?case by simp
next
  case (Cons c cs)
  let ?tr = "tr @ [ExecSync (c @ '' --version'') None]"
  from Cons.prems have "(r, tr') = (Some c, ?tr) \<or> firstPython3 p cs ?tr = (r, tr')"
    by (auto split: exec_outcome.splits if_splits)
  then show ?case
  proof
    assume "(r, tr') = (Some c, ?tr)"
    then show ?thesis by auto
  next
    assume "firstPython3 p cs ?tr = (r, tr')"
    from Cons.IH [OF this] show ?thesis by auto
  qed
qed

lemma firstPython3_none:
  "\<not> python3Available p a \<Longrightarrow> \<not> python3Available p b \<Longrightarrow>
   firstPython3 p [a, b] tr =
     (None, tr @ [ExecSync (a @ '' --version'') None, ExecSync (b @ '' --version'') None])"
  by (auto simp: python3Available_def split: exec_outcome.splits)

lemma firstExisting_none:
  "\<forall>c \<in> set cs. \<not> existsSync p c \<Longrightarrow> firstExisting p cs tr = (None, tr @ map ExistsSync cs)"
  by (induction cs arbitrary: tr) simp_all

lemma findPython_report_events:
  assumes "findPython_report p [] = (r, tr)"
  shows "set tr \<subseteq> {ExecSync ''python3 --version'' None, ExecSync ''python --version'' None}"
proof -
  obtain c tr' where f: "firstPython3 p [''python3'', ''python''] [] = (c, tr')"
    by (cases "firstPython3 p [''python3'', ''python''] []") blast
  with assms have "tr = tr'"
    by (cases c) (simp_all add: findPython_report_def)
  with firstPython3_events [OF f] show ?thesis by auto
qed

lemma findPython_report_error:
  "findPython_report p [] = (Inl e, tr) \<Longrightarrow> e = newError noPython_report"
  by (auto simp: findPython_report_def split: prod.splits option.splits)

lemma findPython_transactions_error:
  "findPython_transactions p [] = (Inl e, tr) \<Longrightarrow> e = newError noPython_transactions"
  by (auto simp: findPython_transactions_def split: prod.splits option.splits)

lemma findPython_transactions_events:
  assumes "findPython_transactions p [] = (r, tr)"
  shows "set tr \<subseteq> ExistsSync ` set (venvCandidates p) \<union>
           {ExecSync ''python3 --version'' None, ExecSync ''python --version'' None}"
proof -
  obtain c tr1 where f1: "firstExisting p (venvCandidates p) [] = (c, tr1)"
    by (cases "firstExisting p (venvCandidates p) []") blast
  obtain d tr2 where f2: "firstPython3 p [''python3'', ''python''] tr1 = (d, tr2)"
    by (cases "firstPython3 p [''python3'', ''python''] tr1") blast
  from firstExisting_events [OF f1] have s1: "set tr1 \<subseteq> ExistsSync ` set (venvCandidates p)"
    by simp
  from firstPython3_events [OF f2] s1
  have s2: "set tr2 \<subseteq> ExistsSync ` set (venvCandidates p) \<union>
           {ExecSync ''python3 --version'' None, ExecSync ''python --version'' None}"
    by auto
  from assms f1 f2 have "tr = tr1 \<or> tr = tr2"
    by (cases c; cases d) (simp_all add: findPython_transactions_def)
  with s1 s2 show ?thesis by auto
qed

section \<open>The structured error of a failed script\<close>

text \<open>
  C1 (as amended). In either wrapper, when the script's call throws and the trimmed
  standard output is not empty and parses to a JSON object, \<open>run\<close> raises an error that
  carries the parsed object as its payload, provided the string conversion of the
  object's \<open>error\<close> property does not throw. The message is the fixed text
  \<open>Script exited with non-zero status\<close> when the property is absent or is the empty
  string, and the property itself when it is a non-empty string.
\<close>

theorem run_surfaces_error_payload:
  "(findPython_report p [] = (Inr python, tr) \<and>
    execSync p (command_report p python) (Some 30000) = Threw err \<and>
    stdout err = Some out \<and> trim out \<noteq> [] \<and>
    JSON_parse p (trim out) = Some (JObj kvs) \<and> errorText p (JObj kvs) = Some m \<longrightarrow>
      run_report p =
        (Inl \<lparr>message = m, payload = Some (JObj kvs)\<rparr>,
         tr @ [ExecSync (command_report p python) (Some 30000)])) \<and>
   (category p \<noteq> [] \<and> findPython_transactions p [] = (Inr python, tr) \<and>
    execSync p (command_transactions p python) (Some 30000) = Threw err \<and>
    stdout err = Some out \<and> trim out \<noteq> [] \<and>
    JSON_parse p (trim out) = Some (JObj kvs) \<and> errorText p (JObj kvs) = Some m \<longrightarrow>
      run_transactions p =
        (Inl \<lparr>message = m, payload = Some (JObj kvs)\<rparr>,
         tr @ [ExecSync (command_transactions p python) (Some 30000)])) \<and>
   (map_of kvs ''error'' = None \<longrightarrow> errorText p (JObj kvs) = Some defaultMessage) \<and>
   (\<forall>s. map_of kvs ''error'' = Some (JStr s) \<longrightarrow>
      errorText p (JObj kvs) = Some (if s = [] then defaultMessage else s))"
proof (intro conjI impI allI)
  assume h: "findPython_report p [] = (Inr python, tr) \<and>
    execSync p (command_report p python) (Some 30000) = Threw err \<and>
    stdout err = Some out \<and> trim out \<noteq> [] \<and>
    JSON_parse p (trim out) = Some (JObj kvs) \<and> errorText p (JObj kvs) = Some m"
  then have "catchExec p ''over_budget_report.py'' err = \<lparr>message = m, payload = Some (JObj kvs)\<rparr>"
    using catchExec_object [of err out p kvs m] by blast
  with h show "run_report p =
        (Inl \<lparr>message = m, payload = Some (JObj kvs)\<rparr>,
         tr @ [ExecSync (command_report p python) (Some 30000)])"
    by (simp add: run_report_found execScript_Threw)
next
  assume h: "category p \<noteq> [] \<and> findPython_transactions p [] = (Inr python, tr) \<and>
    execSync p (command_transactions p python) (Some 30000) = Threw err \<and>
    stdout err = Some out \<and> trim out \<noteq> [] \<and>
    JSON_parse p (trim out) = Some (JObj kvs) \<and> errorText p (JObj kvs) = Some m"
  then have "catchExec p ''category_transactions.py'' err = \<lparr>message = m, payload = Some (JObj kvs)\<rparr>"
    using catchExec_object [of err out p kvs m] by blast
  with h show "run_transactions p =
        (Inl \<lparr>message = m, payload = Some (JObj kvs)\<rparr>,
         tr @ [ExecSync (command_transactions p python) (Some 30000)])"
    by (simp add: run_transactions_found execScript_Threw)
next
  assume "map_of kvs ''error'' = None"
  then show "errorText p (JObj kvs) = Some defaultMessage"
    by (rule errorText_absent)
next
  fix s
  assume "map_of kvs ''error'' = Some (JStr s)"
  then show "errorText p (JObj kvs) = Some (if s = [] then defaultMessage else s)"
    by (rule errorText_string)
qed

text \<open>
  The script exits with status 1 after printing the \<open>SESSION_EXPIRED\<close> object: both
  wrappers raise an error with that object as payload and its \<open>error\<close> text as message.
\<close>

theorem run_surfaces_error_payload_witness:
  "run_report (reportDemo (exited (Some 1) (expiredText @ [nl]) [])) =
     (Inl \<lparr>message = ''Session expired'', payload = Some expiredJson\<rparr>,
      [ExecSync ''python3 --version'' None,
       ExecSync (command_report (reportDemo (exited (Some 1) (expiredText @ [nl]) [])) ''python3'')
         (Some 30000)]) \<and>
   run_transactions (transactionsDemo (exited (Some 1) (expiredText @ [nl]) [])) =
     (Inl \<lparr>message = ''Session expired'', payload = Some expiredJson\<rparr>,
      [ExistsSync ''/r/.venv/bin/python'', ExistsSync ''/r/.venv/Scripts/python'',
       ExecSync ''python3 --version'' None,
       ExecSync
         (command_transactions (transactionsDemo (exited (Some 1) (expiredText @ [nl]) []))
            ''python3'')
         (Some 30000)]) \<and>
   errorText (reportDemo (Returned [])) (JObj [(''code'', JStr ''API_ERROR'')]) =
     Some ''Script exited with non-zero status''"
proof -
  let ?err = "\<lparr>status = Some 1, stdout = Some (expiredText @ [nl]), stderr = Some []\<rparr>"
  let ?kvs = "[(''error'', JStr ''Session expired''), (''code'', JStr ''SESSION_EXPIRED'')]"
  let ?R = "reportDemo (exited (Some 1) (expiredText @ [nl]) [])"
  let ?T = "transactionsDemo (exited (Some 1) (expiredText @ [nl]) [])"
  have t: "trim (expiredText @ [nl]) = expiredText"
    by (simp add: demo_defs wrapper_defs)
  have e: "expiredText \<noteq> []"
    by (simp add: expiredText_def)
  have m: "errorText q (JObj ?kvs) = Some ''Session expired''" for q :: "int platform"
    by (simp add: errorText_def getError_def)
  have r1: "findPython_report ?R [] = (Inr ''python3'', [ExecSync ''python3 --version'' None])"
    by (simp add: demo_defs wrapper_defs)
  have r2: "execSync ?R (command_report ?R ''python3'') (Some 30000) = Threw ?err"
    by (simp add: demo_defs wrapper_defs)
  have r3: "JSON_parse ?R expiredText = Some (JObj ?kvs)"
    by (simp add: demo_defs)
  have t0: "category ?T \<noteq> []"
    by (simp add: demo_defs wrapper_defs)
  have t1: "findPython_transactions ?T [] =
      (Inr ''python3'',
       [ExistsSync ''/r/.venv/bin/python'', ExistsSync ''/r/.venv/Scripts/python'',
        ExecSync ''python3 --version'' None])"
    by (simp add: demo_defs wrapper_defs)
  have t2: "execSync ?T (command_transactions ?T ''python3'') (Some 30000) = Threw ?err"
    by (simp add: demo_defs wrapper_defs)
  have t3: "JSON_parse ?T expiredText = Some (JObj ?kvs)"
    by (simp add: demo_defs)
  from run_surfaces_error_payload
         [of ?R "''python3''" "[ExecSync ''python3 --version'' None]" ?err
             "expiredText @ [nl]" ?kvs "''Session expired''"]
       r1 r2 r3 t e m
  have a: "run_report ?R =
     (Inl \<lparr>message = ''Session expired'', payload = Some (JObj ?kvs)\<rparr>,
      [ExecSync ''python3 --version'' None] @ [ExecSync (command_report ?R ''python3'') (Some 30000)])"
    by simp
  from run_surfaces_error_payload
         [of ?T "''python3''"
             "[ExistsSync ''/r/.venv/bin/python'', ExistsSync ''/r/.venv/Scripts/python'',
               ExecSync ''python3 --version'' None]" ?err
             "expiredText @ [nl]" ?kvs "''Session expired''"]
       t0 t1 t2 t3 t e m
  have b: "run_transactions ?T =
     (Inl \<lparr>message = ''Session expired'', payload = Some (JObj ?kvs)\<rparr>,
      [ExistsSync ''/r/.venv/bin/python'', ExistsSync ''/r/.venv/Scripts/python'',
       ExecSync ''python3 --version'' None] @
      [ExecSync (command_transactions ?T ''python3'') (Some 30000)])"
    by simp
  have "map_of [(''code'', JStr ''API_ERROR'' :: int json)] ''error'' = None"
    by simp
  with run_surfaces_error_payload [of "reportDemo (Returned [])" _ _ _ _ "[(''code'', JStr ''API_ERROR'')]"]
  have c: "errorText (reportDemo (Returned [])) (JObj [(''code'', JStr ''API_ERROR'')]) =
      Some ''Script exited with non-zero status''"
    by (simp add: defaultMessage_def)
  from a b c show ?thesis
    by (simp add: expiredJson_def)
qed

text \<open>
  Against C1 as stated: the script prints an object whose \<open>error\<close> property is present
  and is the empty string; the message of the error is the fixed text, not the property.
\<close>

theorem empty_error_field_counterexample:
  "getError emptyErrorJson = Some (JStr []) \<and>
   fst (run_report (reportDemo (exited (Some 1) emptyErrorText []))) =
     Inl \<lparr>message = ''Script exited with non-zero status'', payload = Some emptyErrorJson\<rparr>"
  by (simp add: run_report_def execScript_def catchExec_def wrapError_def errorText_def
      getError_def defaultMessage_def demo_defs wrapper_defs)

section \<open>Where the parameters come from\<close>

text \<open>
  C2 (as amended). For the threshold, the category and the month, the environment
  variable, when set to a non-empty string, takes precedence over the positional
  argument (\<open>argv[2]\<close> for threshold and category, \<open>argv[3]\<close> for the month), which
  takes precedence over the default (\<open>50\<close> for the threshold, the empty string for the
  other two).
\<close>

theorem environment_before_argv:
  "(env p ''THRESHOLD'' = Some e \<and> e \<noteq> [] \<longrightarrow> threshold p = e) \<and>
   (unset (env p ''THRESHOLD'') \<and> argvAt p 2 = Some a \<and> a \<noteq> [] \<longrightarrow> threshold p = a) \<and>
   (unset (env p ''THRESHOLD'') \<and> unset (argvAt p 2) \<longrightarrow> threshold p = ''50'') \<and>
   (env p ''CATEGORY'' = Some e \<and> e \<noteq> [] \<longrightarrow> category p = e) \<and>
   (unset (env p ''CATEGORY'') \<and> argvAt p 2 = Some a \<and> a \<noteq> [] \<longrightarrow> category p = a) \<and>
   (unset (env p ''CATEGORY'') \<and> unset (argvAt p 2) \<longrightarrow> category p = []) \<and>
   (env p ''MONTH'' = Some e \<and> e \<noteq> [] \<longrightarrow> month p = e) \<and>
   (unset (env p ''MONTH'') \<and> argvAt p 3 = Some a \<and> a \<noteq> [] \<longrightarrow> month p = a) \<and>
   (unset (env p ''MONTH'') \<and> unset (argvAt p 3) \<longrightarrow> month p = [])"
  by (auto simp: threshold_def category_def month_def orElse_def unset_def)

text \<open>
  With all three variables set and arguments that disagree, the variables win; with no
  variable set, the arguments are used; with neither, the defaults.
\<close>

theorem environment_before_argv_witness:
  "threshold envDemo = ''100'' \<and> category envDemo = ''Rent'' \<and> month envDemo = ''2026-01'' \<and>
   threshold argvDemo = ''25'' \<and> category argvDemo = ''25'' \<and> month argvDemo = ''2026-02'' \<and>
   threshold (reportDemo (Returned [])) = ''50'' \<and> category (reportDemo (Returned [])) = [] \<and>
   month (reportDemo (Returned [])) = []"
proof -
  have e: "env envDemo ''THRESHOLD'' = Some ''100''" "env envDemo ''CATEGORY'' = Some ''Rent''"
    "env envDemo ''MONTH'' = Some ''2026-01''"
    by (simp_all add: envDemo_def demo_defs)
  have a: "unset (env argvDemo ''THRESHOLD'')" "unset (env argvDemo ''CATEGORY'')"
    "unset (env argvDemo ''MONTH'')" "argvAt argvDemo 2 = Some ''25''"
    "argvAt argvDemo 3 = Some ''2026-02''"
    by (simp_all add: argvDemo_def demo_defs unset_def argvAt_def)
  have d: "unset (env (reportDemo (Returned [])) ''THRESHOLD'')"
    "unset (env (reportDemo (Returned [])) ''CATEGORY'')"
    "unset (env (reportDemo (Returned [])) ''MONTH'')"
    "unset (argvAt (reportDemo (Returned [])) 2)" "unset (argvAt (reportDemo (Returned [])) 3)"
    by (simp_all add: demo_defs unset_def argvAt_def)
  from environment_before_argv [of envDemo "''100''" "''25''"] e
  have 1: "threshold envDemo = ''100''" by simp
  from environment_before_argv [of envDemo "''Rent''" "''25''"] e
  have 2: "category envDemo = ''Rent''" by simp
  from environment_before_argv [of envDemo "''2026-01''" "''25''"] e
  have 3: "month envDemo = ''2026-01''" by simp
  from environment_before_argv [of argvDemo "''100''" "''25''"] a
  have 4: "threshold argvDemo = ''25''" "category argvDemo = ''25''" by simp_all
  from environment_before_argv [of argvDemo "''100''" "''2026-02''"] a
  have 5: "month argvDemo = ''2026-02''" by simp
  from environment_before_argv [of "reportDemo (Returned [])" "''100''" "''25''"] d
  have 6: "threshold (reportDemo (Returned [])) = ''50''" "category (reportDemo (Returned [])) = []"
    "month (reportDemo (Returned [])) = []" by simp_all
  from 1 2 3 4 5 6 show ?thesis by simp
qed

text \<open>
  Against C2 as stated: the variables and the arguments disagree, and the value of the
  argument is not the one used.
\<close>

theorem argv_before_environment_counterexample:
  "env envDemo ''THRESHOLD'' = Some ''100'' \<and> argvAt envDemo 2 = Some ''25'' \<and>
   threshold envDemo = ''100'' \<and>
   env envDemo ''CATEGORY'' = Some ''Rent'' \<and> category envDemo = ''Rent'' \<and>
   env envDemo ''MONTH'' = Some ''2026-01'' \<and> argvAt envDemo 3 = Some ''2026-02'' \<and>
   month envDemo = ''2026-01''"
  by (simp add: envDemo_def demo_defs wrapper_defs)

section \<open>The threshold on its way to the script\<close>

text \<open>
  C3 (as amended). The report wrapper does not examine the threshold: whatever the
  string is (negative, not a number, anything), once a Python 3 is found \<open>run\<close> starts
  the script with that string after \<open>--threshold\<close>, and its outcome is the outcome of
  that call; when no Python 3 is found, the error is the one of Python detection. The
  wrapper has no invalid-argument error.
\<close>

theorem threshold_forwarded_unchecked:
  "(findPython_report p [] = (Inl e, tr) \<longrightarrow>
     run_report p = (Inl (newError noPython_report), tr)) \<and>
   (findPython_report p [] = (Inr python, tr) \<longrightarrow>
     run_report p =
       execScript p ''over_budget_report.py''
         (join '' ''
            [python, quoted (SCRIPT_PATH_report p), ''--json'', ''--threshold'', threshold p,
             ''--session'', quoted (SESSION_PATH p)]) tr \<and>
     snd (run_report p) =
       tr @
       [ExecSync
          (join '' ''
             [python, quoted (SCRIPT_PATH_report p), ''--json'', ''--threshold'', threshold p,
              ''--session'', quoted (SESSION_PATH p)])
          (Some 30000)])"
proof (intro conjI impI)
  assume f: "findPython_report p [] = (Inl e, tr)"
  then have "e = newError noPython_report"
    by (rule findPython_report_error)
  with f show "run_report p = (Inl (newError noPython_report), tr)"
    by (simp add: run_report_not_found)
qed (simp_all add: run_report_found execScript_trace command_report_def)

text \<open>\<open>THRESHOLD=-5\<close>: the script is started with \<open>--threshold -5\<close>.\<close>

theorem threshold_forwarded_unchecked_witness:
  "threshold negativeDemo = ''-5'' \<and>
   snd (run_report negativeDemo) =
     [ExecSync ''python3 --version'' None,
      ExecSync
        (join '' ''
           [''python3'', quoted ''/r/over_budget_report.py'', ''--json'', ''--threshold'', ''-5'',
            ''--session'', quoted ''/r/session.json''])
        (Some 30000)] \<and>
   run_report (demo [''THRESHOLD'' \<mapsto> ''-5''] [''node'', ''impl.js''] (\<lambda>_. False)
                (\<lambda>_. exited (Some 127) [] [])) =
     (Inl (newError noPython_report),
      [ExecSync ''python3 --version'' None, ExecSync ''python --version'' None])"
proof -
  let ?N = "demo [''THRESHOLD'' \<mapsto> ''-5''] [''node'', ''impl.js''] (\<lambda>_. False)
                (\<lambda>_. exited (Some 127) [] [])"
  have n: "findPython_report ?N [] =
      (Inl (newError noPython_report),
       [ExecSync ''python3 --version'' None, ExecSync ''python --version'' None])"
    by (simp add: demo_defs wrapper_defs)
  note g = threshold_forwarded_unchecked
         [of ?N "newError noPython_report"
             "[ExecSync ''python3 --version'' None, ExecSync ''python --version'' None]",
          THEN conjunct1, THEN mp, OF n]
  have f: "findPython_report negativeDemo [] = (Inr ''python3'', [ExecSync ''python3 --version'' None])"
    by (simp add: negativeDemo_def demo_defs wrapper_defs)
  have t: "threshold negativeDemo = ''-5''"
    by (simp add: negativeDemo_def demo_defs wrapper_defs)
  have s: "SCRIPT_PATH_report negativeDemo = ''/r/over_budget_report.py''"
    "SESSION_PATH negativeDemo = ''/r/session.json''"
    by (simp_all add: negativeDemo_def demo_defs wrapper_defs)
  note h = threshold_forwarded_unchecked
         [of negativeDemo _ "[ExecSync ''python3 --version'' None]" "''python3''",
          THEN conjunct2, THEN mp, OF f, THEN conjunct2, unfolded t s]
  from t h g show ?thesis by simp
qed

text \<open>
  Against C3 as stated: with the negative threshold \<open>-5\<close> the wrapper raises no error of
  its own; the value reaches the script, and what the script answers is returned.
\<close>

theorem negative_threshold_counterexample:
  "threshold negativeDemo = ''-5'' \<and>
   run_report negativeDemo =
     (Inr reportJson,
      [ExecSync ''python3 --version'' None,
       ExecSync
         (join '' ''
            [''python3'', quoted ''/r/over_budget_report.py'', ''--json'', ''--threshold'', ''-5'',
             ''--session'', quoted ''/r/session.json''])
         (Some 30000)])"
  by (simp add: run_report_def execScript_def negativeDemo_def demo_defs wrapper_defs)

section \<open>A missing category\<close>

text \<open>
  C4. When neither the \<open>CATEGORY\<close> variable nor \<open>argv[2]\<close> supplies a category, \<open>run\<close>
  of the transactions wrapper fails with an error, and its trace is empty: no file was
  tested and no child was started, so the failure comes before Python detection and
  before any subprocess call.
\<close>

theorem no_category_fails_first:
  "unset (env p ''CATEGORY'') \<Longrightarrow> unset (argvAt p 2) \<Longrightarrow>
   run_transactions p = (Inl (newError noCategory), [])"
  by (auto simp: run_transactions_def category_def orElse_def unset_def)

theorem no_category_fails_first_witness:
  "unset (env (noPythonDemo [''node'', ''impl.js'']) ''CATEGORY'') \<and>
   unset (argvAt (noPythonDemo [''node'', ''impl.js'']) 2) \<and>
   run_transactions (noPythonDemo [''node'', ''impl.js'']) = (Inl (newError noCategory), [])"
proof -
  have a: "unset (env (noPythonDemo [''node'', ''impl.js'']) ''CATEGORY'')"
    by (simp add: noPythonDemo_def demo_defs unset_def)
  have b: "unset (argvAt (noPythonDemo [''node'', ''impl.js'']) 2)"
    by (simp add: noPythonDemo_def demo_defs unset_def argvAt_def)
  from a b no_category_fails_first [OF a b] show ?thesis by simp
qed

section \<open>The timeout of the script's call\<close>

text \<open>
  C5. In either wrapper every child process that \<open>run\<close> starts is a version probe of
  Python detection or the script's command line, and the script's command line is
  started with the \<open>timeout\<close> option set to 30000 milliseconds. When that call throws
  (as it does when the timeout ends the child), \<open>run\<close> raises an error.
\<close>

theorem script_call_has_timeout:
  "(\<forall>ev \<in> set (snd (run_report p)).
      ev = ExecSync ''python3 --version'' None \<or> ev = ExecSync ''python --version'' None \<or>
      (\<exists>python. ev = ExecSync (command_report p python) (Some 30000))) \<and>
   (findPython_report p [] = (Inr python, tr) \<longrightarrow>
      snd (run_report p) = tr @ [ExecSync (command_report p python) (Some 30000)]) \<and>
   (findPython_report p [] = (Inr python, tr) \<and>
    execSync p (command_report p python) (Some 30000) = Threw err \<longrightarrow>
      fst (run_report p) = Inl (catchExec p ''over_budget_report.py'' err)) \<and>
   (\<forall>ev \<in> set (snd (run_transactions p)).
      (\<exists>c. ev = ExistsSync c) \<or>
      ev = ExecSync ''python3 --version'' None \<or> ev = ExecSync ''python --version'' None \<or>
      (\<exists>python. ev = ExecSync (command_transactions p python) (Some 30000))) \<and>
   (category p \<noteq> [] \<and> findPython_transactions p [] = (Inr python, tr) \<longrightarrow>
      snd (run_transactions p) = tr @ [ExecSync (command_transactions p python) (Some 30000)]) \<and>
   (category p \<noteq> [] \<and> findPython_transactions p [] = (Inr python, tr) \<and>
    execSync p (command_transactions p python) (Some 30000) = Threw err \<longrightarrow>
      fst (run_transactions p) = Inl (catchExec p ''category_transactions.py'' err))"
proof (intro conjI impI ballI)
  fix ev
  assume ev: "ev \<in> set (snd (run_report p))"
  obtain r t where f: "findPython_report p [] = (r, t)"
    by (cases "findPython_report p []") blast
  note sub = findPython_report_events [OF f]
  show "ev = ExecSync ''python3 --version'' None \<or> ev = ExecSync ''python --version'' None \<or>
      (\<exists>python. ev = ExecSync (command_report p python) (Some 30000))"
  proof (cases r)
    case (Inl e)
    with f ev have "ev \<in> set t" by (simp add: run_report_not_found)
    with sub show ?thesis by auto
  next
    case (Inr py)
    with f ev have "ev \<in> set t \<or> ev = ExecSync (command_report p py) (Some 30000)"
      by (auto simp: run_report_found execScript_trace)
    with sub show ?thesis by auto
  qed
next
  assume "findPython_report p [] = (Inr python, tr)"
  then show "snd (run_report p) = tr @ [ExecSync (command_report p python) (Some 30000)]"
    by (simp add: run_report_found execScript_trace)
next
  assume "findPython_report p [] = (Inr python, tr) \<and>
    execSync p (command_report p python) (Some 30000) = Threw err"
  then show "fst (run_report p) = Inl (catchExec p ''over_budget_report.py'' err)"
    by (simp add: run_report_found execScript_Threw)
next
  fix ev
  assume ev: "ev \<in> set (snd (run_transactions p))"
  obtain r t where f: "findPython_transactions p [] = (r, t)"
    by (cases "findPython_transactions p []") blast
  note sub = findPython_transactions_events [OF f]
  show "(\<exists>c. ev = ExistsSync c) \<or>
      ev = ExecSync ''python3 --version'' None \<or> ev = ExecSync ''python --version'' None \<or>
      (\<exists>python. ev = ExecSync (command_transactions p python) (Some 30000))"
  proof (cases "category p = []")
    case True
    with ev show ?thesis by (simp add: run_transactions_def)
  next
    case False
    show ?thesis
    proof (cases r)
      case (Inl e)
      with f ev False have "ev \<in> set t" by (simp add: run_transactions_not_found)
      with sub show ?thesis by auto
    next
      case (Inr py)
      with f ev False
      have "ev \<in> set t \<or> ev = ExecSync (command_transactions p py) (Some 30000)"
        by (auto simp: run_transactions_found execScript_trace)
      with sub show ?thesis by auto
    qed
  qed
next
  assume "category p \<noteq> [] \<and> findPython_transactions p [] = (Inr python, tr)"
  then show "snd (run_transactions p) =
      tr @ [ExecSync (command_transactions p python) (Some 30000)]"
    by (simp add: run_transactions_found execScript_trace)
next
  assume "category p \<noteq> [] \<and> findPython_transactions p [] = (Inr python, tr) \<and>
    execSync p (command_transactions p python) (Some 30000) = Threw err"
  then show "fst (run_transactions p) = Inl (catchExec p ''category_transactions.py'' err)"
    by (simp add: run_transactions_found execScript_Threw)
qed

text \<open>
  The child is ended by the timeout (no exit status, nothing printed): the script's call
  is in the trace with its timeout, and both wrappers raise the error of the failed call.
\<close>

theorem script_call_has_timeout_witness:
  "snd (run_report (reportDemo (exited None [] []))) =
     [ExecSync ''python3 --version'' None,
      ExecSync (command_report (reportDemo (exited None [] [])) ''python3'') (Some 30000)] \<and>
   fst (run_report (reportDemo (exited None [] []))) =
     Inl (newError (''over_budget_report.py failed (exit null).'' @ [nl] @ ''No stderr output.'')) \<and>
   snd (run_transactions (transactionsDemo (exited None [] []))) =
     [ExistsSync ''/r/.venv/bin/python'', ExistsSync ''/r/.venv/Scripts/python'',
      ExecSync ''python3 --version'' None,
      ExecSync (command_transactions (transactionsDemo (exited None [] [])) ''python3'')
        (Some 30000)] \<and>
   fst (run_transactions (transactionsDemo (exited None [] []))) =
     Inl (newError
            (''category_transactions.py failed (exit null).'' @ [nl] @ ''No stderr output.'')) \<and>
   ExecSync (command_report (reportDemo (exited None [] [])) ''python3'') (Some 30000)
     \<in> set (snd (run_report (reportDemo (exited None [] [])))) \<and>
   ExecSync (command_transactions (transactionsDemo (exited None [] [])) ''python3'') (Some 30000)
     \<in> set (snd (run_transactions (transactionsDemo (exited None [] []))))"
proof -
  let ?err = "\<lparr>status = None, stdout = Some [], stderr = Some []\<rparr>"
  let ?R = "reportDemo (exited None [] [])"
  let ?T = "transactionsDemo (exited None [] [])"
  let ?tr = "[ExistsSync ''/r/.venv/bin/python'', ExistsSync ''/r/.venv/Scripts/python'',
       ExecSync ''python3 --version'' None]"
  have c: "catchExec q script ?err =
      newError (script @ '' failed (exit null).'' @ [nl] @ ''No stderr output.'')"
    for q :: "int platform" and script
    by (simp add: catchExec_def fallbackError_def statusText_def wrapper_defs)
  have r1: "findPython_report ?R [] = (Inr ''python3'', [ExecSync ''python3 --version'' None])"
    by (simp add: demo_defs wrapper_defs)
  have r2: "execSync ?R (command_report ?R ''python3'') (Some 30000) = Threw ?err"
    by (simp add: demo_defs wrapper_defs)
  have t0: "category ?T \<noteq> []"
    by (simp add: demo_defs wrapper_defs)
  have t1: "findPython_transactions ?T [] = (Inr ''python3'', ?tr)"
    by (simp add: demo_defs wrapper_defs)
  have t2: "execSync ?T (command_transactions ?T ''python3'') (Some 30000) = Threw ?err"
    by (simp add: demo_defs wrapper_defs)
  note r = script_call_has_timeout
             [of ?R "''python3''" "[ExecSync ''python3 --version'' None]" ?err]
  note t = script_call_has_timeout [of ?T "''python3''" ?tr ?err]
  from r r1 r2 c
  have a: "snd (run_report ?R) =
      [ExecSync ''python3 --version'' None] @
      [ExecSync (command_report ?R ''python3'') (Some 30000)]"
    "fst (run_report ?R) =
       Inl (newError (''over_budget_report.py failed (exit null).'' @ [nl] @ ''No stderr output.''))"
    by simp_all
  from t t0 t1 t2 c
  have b: "snd (run_transactions ?T) =
      ?tr @ [ExecSync (command_transactions ?T ''python3'') (Some 30000)]"
    "fst (run_transactions ?T) =
       Inl (newError
              (''category_transactions.py failed (exit null).'' @ [nl] @ ''No stderr output.''))"
    by simp_all
  from a b show ?thesis by simp
qed

section \<open>No Python\<close>

text \<open>
  C6 (as amended). When no Python 3 is found (for the report: neither \<open>python3\<close> nor
  \<open>python\<close> answers its version probe with \<open>Python 3\<close>; for the transactions, with a
  category given: no interpreter of the virtual environment exists either), \<open>run\<close> fails
  before the script is started: the trace holds the detection's own calls only. The
  error is a plain \<open>Error\<close> whose message says that Python 3 was not found; it has no
  payload and so no error code.
\<close>

theorem no_python_fails_before_script:
  "(\<not> python3Available (p :: 'n platform) ''python3'' \<and> \<not> python3Available p ''python'' \<longrightarrow>
      run_report p =
        (Inl (newError noPython_report),
         [ExecSync ''python3 --version'' None, ExecSync ''python --version'' None])) \<and>
   (category p \<noteq> [] \<and> (\<forall>c \<in> set (venvCandidates p). \<not> existsSync p c) \<and>
    \<not> python3Available p ''python3'' \<and> \<not> python3Available p ''python'' \<longrightarrow>
      run_transactions p =
        (Inl (newError noPython_transactions),
         map ExistsSync (venvCandidates p) @
         [ExecSync ''python3 --version'' None, ExecSync ''python --version'' None])) \<and>
   payload (newError noPython_report :: 'n js_error) = None \<and>
   errorCode (newError noPython_report :: 'n js_error) = None \<and>
   payload (newError noPython_transactions :: 'n js_error) = None \<and>
   errorCode (newError noPython_transactions :: 'n js_error) = None"
proof (intro conjI impI)
  assume "\<not> python3Available p ''python3'' \<and> \<not> python3Available p ''python''"
  then have "firstPython3 p [''python3'', ''python''] [] =
      (None, [] @ [ExecSync (''python3'' @ '' --version'') None,
                   ExecSync (''python'' @ '' --version'') None])"
    by (intro firstPython3_none) simp_all
  then show "run_report p =
        (Inl (newError noPython_report),
         [ExecSync ''python3 --version'' None, ExecSync ''python --version'' None])"
    by (simp add: run_report_def findPython_report_def)
next
  assume h: "category p \<noteq> [] \<and> (\<forall>c \<in> set (venvCandidates p). \<not> existsSync p c) \<and>
    \<not> python3Available p ''python3'' \<and> \<not> python3Available p ''python''"
  then have 1: "firstExisting p (venvCandidates p) [] = (None, [] @ map ExistsSync (venvCandidates p))"
    by (intro firstExisting_none) simp
  from h have 2: "firstPython3 p [''python3'', ''python''] (map ExistsSync (venvCandidates p)) =
      (None, map ExistsSync (venvCandidates p) @
             [ExecSync (''python3'' @ '' --version'') None,
              ExecSync (''python'' @ '' --version'') None])"
    by (intro firstPython3_none) simp_all
  from h 1 2 show "run_transactions p =
        (Inl (newError noPython_transactions),
         map ExistsSync (venvCandidates p) @
         [ExecSync ''python3 --version'' None, ExecSync ''python --version'' None])"
    by (simp add: run_transactions_def findPython_transactions_def)
qed (simp_all add: newError_def errorCode_def)

theorem no_python_fails_before_script_witness:
  "run_report (noPythonDemo [''node'', ''impl.js'']) =
     (Inl (newError noPython_report),
      [ExecSync ''python3 --version'' None, ExecSync ''python --version'' None]) \<and>
   run_transactions (noPythonDemo [''node'', ''impl.js'', ''Rent'']) =
     (Inl (newError noPython_transactions),
      [ExistsSync ''/r/.venv/bin/python'', ExistsSync ''/r/.venv/Scripts/python'',
       ExecSync ''python3 --version'' None, ExecSync ''python --version'' None])"
proof -
  let ?R = "noPythonDemo [''node'', ''impl.js'']"
  let ?T = "noPythonDemo [''node'', ''impl.js'', ''Rent'']"
  have r: "\<not> python3Available ?R ''python3''" "\<not> python3Available ?R ''python''"
    by (simp_all add: noPythonDemo_def demo_defs python3Available_def)
  have t: "\<not> python3Available ?T ''python3''" "\<not> python3Available ?T ''python''"
    "category ?T \<noteq> []" "\<forall>c \<in> set (venvCandidates ?T). \<not> existsSync ?T c"
    by (simp_all add: noPythonDemo_def demo_defs wrapper_defs python3Available_def)
  have v: "venvCandidates ?T = [''/r/.venv/bin/python'', ''/r/.venv/Scripts/python'']"
    by (simp add: noPythonDemo_def demo_defs wrapper_defs)
  from r no_python_fails_before_script [of ?R]
  have a: "run_report ?R =
     (Inl (newError noPython_report),
      [ExecSync ''python3 --version'' None, ExecSync ''python --version'' None])"
    by simp
  from t no_python_fails_before_script [of ?T]
  have b: "run_transactions ?T =
        (Inl (newError noPython_transactions),
         map ExistsSync (venvCandidates ?T) @
         [ExecSync ''python3 --version'' None, ExecSync ''python --version'' None])"
    by simp
  from a b show ?thesis
    by (simp add: v)
qed

text \<open>
  Against C6 as stated: with no Python at all, the error that \<open>run\<close> raises has no payload
  and no code, and its message does not name \<open>DEPENDENCY_MISSING\<close>; nothing classifies it.
\<close>

theorem no_python_unclassified_counterexample:
  "fst (run_report (noPythonDemo [''node'', ''impl.js''])) =
     Inl \<lparr>message = noPython_report, payload = None\<rparr> \<and>
   errorCode \<lparr>message = noPython_report, payload = (None :: int json option)\<rparr> = None \<and>
   \<not> includesStr noPython_report ''DEPENDENCY_MISSING''"
proof -
  have "fst (run_report (noPythonDemo [''node'', ''impl.js''])) =
     Inl \<lparr>message = noPython_report, payload = None\<rparr>"
    by (simp add: run_report_def newError_def noPythonDemo_def demo_defs wrapper_defs)
  moreover have "\<not> includesStr noPython_report ''DEPENDENCY_MISSING''"
    by (simp add: noPython_report_def startsWith_def)
  ultimately show ?thesis
    by (simp add: errorCode_def)
qed

section \<open>The output of a script that succeeded\<close>

lemma parseFailure_message:
  "(parseFailure script out :: 'n js_error) =
     \<lparr>message =
        ''Failed to parse JSON from '' @ script @ ''.'' @ [nl] @ ''Raw output: '' @ take 500 out,
      payload = None\<rparr>"
  by (simp add: parseFailure_def newError_def slice0_def)

lemma not_parse_failure_report:
  "\<not> startsWith (message (newError noPython_report)) ''Failed to parse JSON from ''"
  by (simp add: newError_def noPython_report_def startsWith_def)

lemma not_parse_failure_transactions:
  "\<not> startsWith (message (newError noCategory)) ''Failed to parse JSON from ''"
  "\<not> startsWith (message (newError noPython_transactions)) ''Failed to parse JSON from ''"
  by (simp_all add: newError_def noCategory_def noPython_transactions_def startsWith_def)

lemma execScript_parse_failure_only:
  assumes "fst (execScript p script command tr) = Inl e" and "payload e = None"
    and "startsWith (message e) ''Failed to parse JSON from ''"
    and "script = ''over_budget_report.py'' \<or> script = ''category_transactions.py''"
  shows "\<exists>out. execSync p command (Some 30000) = Returned out \<and> JSON_parse p (trim out) = None"
proof (cases "execSync p command (Some 30000)")
  case (Threw err)
  with assms(1) have "e = catchExec p script err"
    by (simp add: execScript_Threw)
  with catchExec_cases [of p script err] assms(2) have "e = fallbackError script err"
    by auto
  with assms(3,4) have False
    by (auto simp: fallbackError_def newError_def startsWith_def)
  then show ?thesis ..
next
  case (Returned out)
  with assms(1) have "JSON_parse p (trim out) = None"
    by (cases "JSON_parse p (trim out)") (simp_all add: execScript_Returned)
  with Returned show ?thesis by blast
qed

text \<open>
  C8. In either wrapper, when the script's call returns (exit status 0) and the trimmed
  output does not parse as JSON, \<open>run\<close> raises an error and returns nothing. The error
  has no payload, and its message is \<open>Failed to parse JSON from\<close>, the script's name and
  the first 500 code units of the raw output. It is distinct: no other failure of \<open>run\<close>
  gives an error without payload whose message starts with \<open>Failed to parse JSON from\<close>.
\<close>

theorem unparsable_output_is_parse_failure:
  "(findPython_report p [] = (Inr python, tr) \<and>
    execSync p (command_report p python) (Some 30000) = Returned out \<and>
    JSON_parse p (trim out) = None \<longrightarrow>
      fst (run_report p) =
        Inl \<lparr>message =
               ''Failed to parse JSON from over_budget_report.py.'' @ [nl] @
               ''Raw output: '' @ take 500 out,
             payload = None\<rparr>) \<and>
   (category p \<noteq> [] \<and> findPython_transactions p [] = (Inr python, tr) \<and>
    execSync p (command_transactions p python) (Some 30000) = Returned out \<and>
    JSON_parse p (trim out) = None \<longrightarrow>
      fst (run_transactions p) =
        Inl \<lparr>message =
               ''Failed to parse JSON from category_transactions.py.'' @ [nl] @
               ''Raw output: '' @ take 500 out,
             payload = None\<rparr>) \<and>
   (fst (run_report p) = Inl e \<and> payload e = None \<and>
    startsWith (message e) ''Failed to parse JSON from '' \<longrightarrow>
      (\<exists>py t raw. findPython_report p [] = (Inr py, t) \<and>
         execSync p (command_report p py) (Some 30000) = Returned raw \<and>
         JSON_parse p (trim raw) = None)) \<and>
   (fst (run_transactions p) = Inl e \<and> payload e = None \<and>
    startsWith (message e) ''Failed to parse JSON from '' \<longrightarrow>
      (\<exists>py t raw. findPython_transactions p [] = (Inr py, t) \<and>
         execSync p (command_transactions p py) (Some 30000) = Returned raw \<and>
         JSON_parse p (trim raw) = None))"
proof (intro conjI impI)
  assume "findPython_report p [] = (Inr python, tr) \<and>
    execSync p (command_report p python) (Some 30000) = Returned out \<and>
    JSON_parse p (trim out) = None"
  then show "fst (run_report p) =
        Inl \<lparr>message =
               ''Failed to parse JSON from over_budget_report.py.'' @ [nl] @
               ''Raw output: '' @ take 500 out,
             payload = None\<rparr>"
    by (simp add: run_report_found execScript_Returned parseFailure_message)
next
  assume "category p \<noteq> [] \<and> findPython_transactions p [] = (Inr python, tr) \<and>
    execSync p (command_transactions p python) (Some 30000) = Returned out \<and>
    JSON_parse p (trim out) = None"
  then show "fst (run_transactions p) =
        Inl \<lparr>message =
               ''Failed to parse JSON from category_transactions.py.'' @ [nl] @
               ''Raw output: '' @ take 500 out,
             payload = None\<rparr>"
    by (simp add: run_transactions_found execScript_Returned parseFailure_message)
next
  assume h: "fst (run_report p) = Inl e \<and> payload e = None \<and>
    startsWith (message e) ''Failed to parse JSON from ''"
  obtain r t where f: "findPython_report p [] = (r, t)"
    by (cases "findPython_report p []") blast
  show "\<exists>py t raw. findPython_report p [] = (Inr py, t) \<and>
         execSync p (command_report p py) (Some 30000) = Returned raw \<and>
         JSON_parse p (trim raw) = None"
  proof (cases r)
    case (Inl e')
    with f have "e' = newError noPython_report"
      by (simp add: findPython_report_error)
    with f Inl h have "startsWith (message (newError noPython_report :: 'a js_error))
        ''Failed to parse JSON from ''"
      by (auto simp: run_report_not_found)
    then show ?thesis by (simp add: not_parse_failure_report)
  next
    case (Inr py)
    with f h have "fst (execScript p ''over_budget_report.py'' (command_report p py) t) = Inl e"
      by (simp add: run_report_found)
    from execScript_parse_failure_only [OF this] h
    have "\<exists>raw. execSync p (command_report p py) (Some 30000) = Returned raw \<and>
        JSON_parse p (trim raw) = None"
      by simp
    with f Inr show ?thesis by blast
  qed
next
  assume h: "fst (run_transactions p) = Inl e \<and> payload e = None \<and>
    startsWith (message e) ''Failed to parse JSON from ''"
  obtain r t where f: "findPython_transactions p [] = (r, t)"
    by (cases "findPython_transactions p []") blast
  have c: "category p \<noteq> []"
  proof
    assume "category p = []"
    with h have "e = newError noCategory"
      by (simp add: run_transactions_def)
    with h show False by (simp add: not_parse_failure_transactions)
  qed
  show "\<exists>py t raw. findPython_transactions p [] = (Inr py, t) \<and>
         execSync p (command_transactions p py) (Some 30000) = Returned raw \<and>
         JSON_parse p (trim raw) = None"
  proof (cases r)
    case (Inl e')
    with f have "e' = newError noPython_transactions"
      by (simp add: findPython_transactions_error)
    with f Inl h c have "startsWith (message (newError noPython_transactions :: 'a js_error))
        ''Failed to parse JSON from ''"
      by (auto simp: run_transactions_not_found)
    then show ?thesis by (simp add: not_parse_failure_transactions)
  next
    case (Inr py)
    with f h c
    have "fst (execScript p ''category_transactions.py'' (command_transactions p py) t) = Inl e"
      by (simp add: run_transactions_found)
    from execScript_parse_failure_only [OF this] h
    have "\<exists>raw. execSync p (command_transactions p py) (Some 30000) = Returned raw \<and>
        JSON_parse p (trim raw) = None"
      by simp
    with f Inr show ?thesis by blast
  qed
qed

text \<open>The script exits with status 0 after printing a Python traceback's first line.\<close>

theorem unparsable_output_is_parse_failure_witness:
  "fst (run_report (reportDemo (Returned ''Traceback''))) =
     Inl \<lparr>message =
            ''Failed to parse JSON from over_budget_report.py.'' @ [nl] @
            ''Raw output: Traceback'',
          payload = None\<rparr> \<and>
   fst (run_transactions (transactionsDemo (Returned ''Traceback''))) =
     Inl \<lparr>message =
            ''Failed to parse JSON from category_transactions.py.'' @ [nl] @
            ''Raw output: Traceback'',
          payload = None\<rparr> \<and>
   (\<exists>py t raw. findPython_report (reportDemo (Returned ''Traceback'')) [] = (Inr py, t) \<and>
      execSync (reportDemo (Returned ''Traceback''))
        (command_report (reportDemo (Returned ''Traceback'')) py) (Some 30000) = Returned raw \<and>
      JSON_parse (reportDemo (Returned ''Traceback'')) (trim raw) = None) \<and>
   (\<exists>py t raw.
      findPython_transactions (transactionsDemo (Returned ''Traceback'')) [] = (Inr py, t) \<and>
      execSync (transactionsDemo (Returned ''Traceback''))
        (command_transactions (transactionsDemo (Returned ''Traceback'')) py) (Some 30000) =
        Returned raw \<and>
      JSON_parse (transactionsDemo (Returned ''Traceback'')) (trim raw) = None)"
proof -
  let ?R = "reportDemo (Returned ''Traceback'')"
  let ?T = "transactionsDemo (Returned ''Traceback'')"
  let ?tr = "[ExistsSync ''/r/.venv/bin/python'', ExistsSync ''/r/.venv/Scripts/python'',
       ExecSync ''python3 --version'' None]"
  let ?e = "\<lparr>message =
            ''Failed to parse JSON from over_budget_report.py.'' @ [nl] @
            ''Raw output: Traceback'',
          payload = (None :: int json option)\<rparr>"
  have r: "findPython_report ?R [] = (Inr ''python3'', [ExecSync ''python3 --version'' None])"
    "execSync ?R (command_report ?R ''python3'') (Some 30000) = Returned ''Traceback''"
    "JSON_parse ?R (trim ''Traceback'') = None"
    by (simp_all add: demo_defs wrapper_defs)
  have t: "category ?T \<noteq> []" "findPython_transactions ?T [] = (Inr ''python3'', ?tr)"
    "execSync ?T (command_transactions ?T ''python3'') (Some 30000) = Returned ''Traceback''"
    "JSON_parse ?T (trim ''Traceback'') = None"
    by (simp_all add: demo_defs wrapper_defs)
  from r unparsable_output_is_parse_failure
         [of ?R "''python3''" "[ExecSync ''python3 --version'' None]" "''Traceback''" ?e]
  have a: "fst (run_report ?R) = Inl ?e"
    by simp
  have s: "payload ?e = None" "startsWith (message ?e) ''Failed to parse JSON from ''"
    by (simp_all add: startsWith_def)
  from a s unparsable_output_is_parse_failure
         [of ?R "''python3''" "[ExecSync ''python3 --version'' None]" "''Traceback''" ?e]
  have c: "\<exists>py t raw. findPython_report ?R [] = (Inr py, t) \<and>
      execSync ?R (command_report ?R py) (Some 30000) = Returned raw \<and>
      JSON_parse ?R (trim raw) = None"
    by blast
  let ?e' = "\<lparr>message =
            ''Failed to parse JSON from category_transactions.py.'' @ [nl] @
            ''Raw output: Traceback'',
          payload = (None :: int json option)\<rparr>"
  from t unparsable_output_is_parse_failure [of ?T "''python3''" ?tr "''Traceback''" ?e']
  have b: "fst (run_transactions ?T) = Inl ?e'"
    by simp
  have s': "payload ?e' = None" "startsWith (message ?e') ''Failed to parse JSON from ''"
    by (simp_all add: startsWith_def)
  from b s' unparsable_output_is_parse_failure [of ?T "''python3''" ?tr "''Traceback''" ?e']
  have d: "\<exists>py t raw. findPython_transactions ?T [] = (Inr py, t) \<and>
      execSync ?T (command_transactions ?T py) (Some 30000) = Returned raw \<and>
      JSON_parse ?T (trim raw) = None"
    by blast
  from a b c d show ?thesis by blast
qed

text \<open>
  C9. In either wrapper, when the script's call returns (exit status 0) and the trimmed
  output parses as JSON, \<open>run\<close> returns the parsed value itself.
\<close>

theorem parsed_output_returned_unchanged:
  "(findPython_report p [] = (Inr python, tr) \<and>
    execSync p (command_report p python) (Some 30000) = Returned out \<and>
    JSON_parse p (trim out) = Some v \<longrightarrow>
      run_report p = (Inr v, tr @ [ExecSync (command_report p python) (Some 30000)])) \<and>
   (category p \<noteq> [] \<and> findPython_transactions p [] = (Inr python, tr) \<and>
    execSync p (command_transactions p python) (Some 30000) = Returned out \<and>
    JSON_parse p (trim out) = Some v \<longrightarrow>
      run_transactions p =
        (Inr v, tr @ [ExecSync (command_transactions p python) (Some 30000)]))"
  by (simp add: run_report_found run_transactions_found execScript_Returned)

theorem parsed_output_returned_unchanged_witness:
  "fst (run_report (reportDemo (Returned (reportText @ [nl])))) = Inr reportJson \<and>
   fst (run_transactions (transactionsDemo (Returned (reportText @ [nl])))) = Inr reportJson"
proof -
  let ?R = "reportDemo (Returned (reportText @ [nl]))"
  let ?T = "transactionsDemo (Returned (reportText @ [nl]))"
  let ?tr = "[ExistsSync ''/r/.venv/bin/python'', ExistsSync ''/r/.venv/Scripts/python'',
       ExecSync ''python3 --version'' None]"
  have tt: "trim (reportText @ [nl]) = reportText"
    by (simp add: demo_defs wrapper_defs)
  have r: "findPython_report ?R [] = (Inr ''python3'', [ExecSync ''python3 --version'' None])"
    "execSync ?R (command_report ?R ''python3'') (Some 30000) = Returned (reportText @ [nl])"
    "JSON_parse ?R reportText = Some reportJson"
    by (simp_all add: demo_defs wrapper_defs)
  have t: "category ?T \<noteq> []" "findPython_transactions ?T [] = (Inr ''python3'', ?tr)"
    "execSync ?T (command_transactions ?T ''python3'') (Some 30000) = Returned (reportText @ [nl])"
    "JSON_parse ?T reportText = Some reportJson"
    by (simp_all add: demo_defs wrapper_defs)
  from r tt parsed_output_returned_unchanged
         [of ?R "''python3''" "[ExecSync ''python3 --version'' None]" "reportText @ [nl]" reportJson]
  have a: "fst (run_report ?R) = Inr reportJson"
    by simp
  from t tt parsed_output_returned_unchanged
         [of ?T "''python3''" ?tr "reportText @ [nl]" reportJson]
  have b: "fst (run_transactions ?T) = Inr reportJson"
    by simp
  from a b show ?thesis by simp
qed

section \<open>A failed script without a structured error\<close>

text \<open>
  C10. In either wrapper, when the script's call throws and the trimmed standard output
  is empty or does not parse as JSON, the error that \<open>run\<close> raises has no payload; its
  message is the script's name, \<open>failed (exit\<close>, the exit status, and on the next line
  the trimmed standard error, or \<open>No stderr output.\<close> when that is empty.
\<close>

theorem unstructured_failure_reports_status_and_stderr:
  "(findPython_report p [] = (Inr python, tr) \<and>
    execSync p (command_report p python) (Some 30000) = Threw err \<and>
    (trim (orElse (stdout err) []) = [] \<or>
     JSON_parse p (trim (orElse (stdout err) [])) = None) \<longrightarrow>
      fst (run_report p) =
        Inl \<lparr>message =
               ''over_budget_report.py failed (exit '' @ statusText (status err) @ '').'' @ [nl] @
               (if trim (orElse (stderr err) []) = [] then ''No stderr output.''
                else trim (orElse (stderr err) [])),
             payload = None\<rparr>) \<and>
   (category p \<noteq> [] \<and> findPython_transactions p [] = (Inr python, tr) \<and>
    execSync p (command_transactions p python) (Some 30000) = Threw err \<and>
    (trim (orElse (stdout err) []) = [] \<or>
     JSON_parse p (trim (orElse (stdout err) [])) = None) \<longrightarrow>
      fst (run_transactions p) =
        Inl \<lparr>message =
               ''category_transactions.py failed (exit '' @ statusText (status err) @ '').'' @ [nl] @
               (if trim (orElse (stderr err) []) = [] then ''No stderr output.''
                else trim (orElse (stderr err) [])),
             payload = None\<rparr>)"
proof (intro conjI impI)
  assume h: "findPython_report p [] = (Inr python, tr) \<and>
    execSync p (command_report p python) (Some 30000) = Threw err \<and>
    (trim (orElse (stdout err) []) = [] \<or>
     JSON_parse p (trim (orElse (stdout err) [])) = None)"
  then have "catchExec p ''over_budget_report.py'' err = fallbackError ''over_budget_report.py'' err"
    by (intro catchExec_fallback) simp
  with h show "fst (run_report p) =
        Inl \<lparr>message =
               ''over_budget_report.py failed (exit '' @ statusText (status err) @ '').'' @ [nl] @
               (if trim (orElse (stderr err) []) = [] then ''No stderr output.''
                else trim (orElse (stderr err) [])),
             payload = None\<rparr>"
    by (simp add: run_report_found execScript_Threw fallbackError_message)
next
  assume h: "category p \<noteq> [] \<and> findPython_transactions p [] = (Inr python, tr) \<and>
    execSync p (command_transactions p python) (Some 30000) = Threw err \<and>
    (trim (orElse (stdout err) []) = [] \<or>
     JSON_parse p (trim (orElse (stdout err) [])) = None)"
  then have "catchExec p ''category_transactions.py'' err =
      fallbackError ''category_transactions.py'' err"
    by (intro catchExec_fallback) simp
  with h show "fst (run_transactions p) =
        Inl \<lparr>message =
               ''category_transactions.py failed (exit '' @ statusText (status err) @ '').'' @ [nl] @
               (if trim (orElse (stderr err) []) = [] then ''No stderr output.''
                else trim (orElse (stderr err) [])),
             payload = None\<rparr>"
    by (simp add: run_transactions_found execScript_Threw fallbackError_message)
qed

text \<open>
  The report script exits with status 2 and a usage line on standard error, nothing on
  standard output; the transactions script exits with status 1 after printing text that
  is not JSON, nothing on standard error.
\<close>

theorem unstructured_failure_reports_status_and_stderr_witness:
  "fst (run_report (reportDemo (exited (Some 2) [] (''usage: --threshold N'' @ [nl])))) =
     Inl \<lparr>message = ''over_budget_report.py failed (exit 2).'' @ [nl] @ ''usage: --threshold N'',
          payload = None\<rparr> \<and>
   fst (run_transactions (transactionsDemo (exited (Some 1) ''Traceback'' []))) =
     Inl \<lparr>message = ''category_transactions.py failed (exit 1).'' @ [nl] @ ''No stderr output.'',
          payload = None\<rparr>"
proof -
  let ?e1 = "\<lparr>status = Some 2, stdout = Some [], stderr = Some (''usage: --threshold N'' @ [nl])\<rparr>"
  let ?e2 = "\<lparr>status = Some 1, stdout = Some ''Traceback'', stderr = Some []\<rparr>"
  let ?R = "reportDemo (exited (Some 2) [] (''usage: --threshold N'' @ [nl]))"
  let ?T = "transactionsDemo (exited (Some 1) ''Traceback'' [])"
  let ?tr = "[ExistsSync ''/r/.venv/bin/python'', ExistsSync ''/r/.venv/Scripts/python'',
       ExecSync ''python3 --version'' None]"
  have r: "findPython_report ?R [] = (Inr ''python3'', [ExecSync ''python3 --version'' None])"
    "execSync ?R (command_report ?R ''python3'') (Some 30000) = Threw ?e1"
    "trim (orElse (stdout ?e1) []) = []"
    by (simp_all add: demo_defs wrapper_defs)
  have t: "category ?T \<noteq> []" "findPython_transactions ?T [] = (Inr ''python3'', ?tr)"
    "execSync ?T (command_transactions ?T ''python3'') (Some 30000) = Threw ?e2"
    "JSON_parse ?T (trim (orElse (stdout ?e2) [])) = None"
    by (simp_all add: demo_defs wrapper_defs)
  have s: "statusText (Some 2) = ''2''" "statusText (Some 1) = ''1''"
    "trim (orElse (stderr ?e1) []) = ''usage: --threshold N''"
    "trim (orElse (stderr ?e2) []) = []"
    by (simp_all add: statusText_def wrapper_defs)
  from r unstructured_failure_reports_status_and_stderr
         [of ?R "''python3''" "[ExecSync ''python3 --version'' None]" ?e1]
  have a: "fst (run_report ?R) =
     Inl \<lparr>message =
            ''over_budget_report.py failed (exit '' @ statusText (status ?e1) @ '').'' @ [nl] @
            (if trim (orElse (stderr ?e1) []) = [] then ''No stderr output.''
             else trim (orElse (stderr ?e1) [])),
          payload = None\<rparr>"
    by blast
  from t unstructured_failure_reports_status_and_stderr [of ?T "''python3''" ?tr ?e2]
  have b: "fst (run_transactions ?T) =
     Inl \<lparr>message =
            ''category_transactions.py failed (exit '' @ statusText (status ?e2) @ '').'' @ [nl] @
            (if trim (orElse (stderr ?e2) []) = [] then ''No stderr output.''
             else trim (orElse (stderr ?e2) [])),
          payload = None\<rparr>"
    by blast
  from a b s show ?thesis by simp
qed

section \<open>The over-budget filter\<close>

lemma ofRow_toRow: "ofRow (toRow c) = c"
  by (simp add: ofRow_def toRow_def)

lemma entries_analyze:
  "entries (analyze categories t) =
     sort_key (\<lambda>r. - overage r) (map toRow (filter (\<lambda>c. overageOf c > t) categories))"
  by (simp add: analyze_def Let_def)

text \<open>
  C7. For every list of categories and every threshold, the entries of \<open>analyze\<close> are,
  as categories and counted with repetitions, exactly the categories whose actual minus
  planned is strictly greater than the threshold; every entry's overage is its actual
  minus its planned, and none is less than or equal to the threshold.
\<close>

theorem analyze_keeps_strictly_over:
  "mset (map ofRow (entries (analyze categories t))) =
     mset (filter (\<lambda>c. actual c - planned c > t) categories) \<and>
   (\<forall>r \<in> set (entries (analyze categories t)).
      overage r = actual r - planned r \<and> \<not> overage r \<le> t)"
proof
  have "mset (map ofRow (entries (analyze categories t))) =
      image_mset ofRow (image_mset toRow (mset (filter (\<lambda>c. overageOf c > t) categories)))"
    by (simp add: entries_analyze)
  also have "\<dots> = mset (filter (\<lambda>c. overageOf c > t) categories)"
    by (simp add: image_mset.compositionality comp_def ofRow_toRow)
  finally show "mset (map ofRow (entries (analyze categories t))) =
      mset (filter (\<lambda>c. actual c - planned c > t) categories)"
    by (simp add: overageOf_def)
next
  show "\<forall>r \<in> set (entries (analyze categories t)).
      overage r = actual r - planned r \<and> \<not> overage r \<le> t"
    by (auto simp: entries_analyze toRow_def overageOf_def)
qed

text \<open>
  Scenario A of the specification at threshold 50 keeps Dining Out (over by 112.45) and
  drops Rent; at threshold 112.45, equal to the overage, nothing is kept.
\<close>

theorem analyze_keeps_strictly_over_witness:
  "entries (analyze scenarioA 50) =
     [\<lparr>name = ''Dining Out'', group = ''Food&Drink'', planned = 200, actual = 312.45,
       overage = 112.45\<rparr>] \<and>
   \<not> overage \<lparr>name = ''Dining Out'', group = ''Food&Drink'', planned = 200, actual = 312.45,
       overage = 112.45\<rparr> \<le> 50 \<and>
   entries (analyze scenarioA 112.45) = []"
proof -
  let ?row = "\<lparr>name = ''Dining Out'', group = ''Food&Drink'', planned = 200, actual = 312.45,
       overage = 112.45 :: rat\<rparr>"
  have a: "entries (analyze scenarioA 50) = [?row]"
    by (simp add: entries_analyze scenarioA_def overageOf_def toRow_def)
  have b: "entries (analyze scenarioA 112.45) = []"
    by (simp add: entries_analyze scenarioA_def overageOf_def toRow_def)
  from analyze_keeps_strictly_over [of scenarioA 50] a
  have "\<not> overage ?row \<le> 50"
    by simp
  with a b show ?thesis by simp
qed

end
